theory Spec2Isabelle
  imports Main "HOL-Library.Sublist"
begin

section \<open>Data model (models/router.go, services/mikrotik_service.go)\<close>

text \<open>
  A row of the \<open>routers\<close> table, restricted to the columns the connection manager reads
  or writes. Times are natural numbers (seconds of some clock).
\<close>

record Router =
  ID :: int
  Name :: string
  Hostname :: string
  Username :: string
  Password :: string
  Port :: int
  IsActive :: bool
  LastSeen :: "nat option"
  Status :: string
  Version :: "string option"
  Uptime :: "string option"
  UpdatedAt :: nat

text \<open>\<open>models.RouterStatusUpdate\<close>; a nil pointer is \<open>None\<close>.\<close>

record RouterStatusUpdate =
  uStatus :: string
  uVersion :: "string option"
  uUptime :: "string option"
  uLastSeen :: "nat option"

text \<open>
  The repository: the table keyed by id, and whether the database answers at all
  (\<open>dbErr = Some e\<close>: every query fails with \<open>e\<close>).
\<close>

record RouterRepository =
  rows :: "int \<rightharpoonup> Router"
  dbErr :: "string option"

datatype repo_error = RepoRouterNotFound | RepoDbError string

text \<open>
  A reply sentence of the device (\<open>proto.Sentence\<close>): its word and its key/value pairs.
  Reading a missing key of a Go map gives the empty string.
\<close>

record Sentence =
  SWord :: string
  SMap :: "(string \<times> string) list"

definition mapGet :: "(string \<times> string) list \<Rightarrow> string \<Rightarrow> string" where
  "mapGet m k = (case map_of m k of None \<Rightarrow> [] | Some v \<Rightarrow> v)"

record SystemInfo =
  siVersion :: string
  siUptime :: string

text \<open>\<open>MikrotikConnection\<close>: the client is a handle (a number) of the device library.\<close>

record MikrotikConnection =
  RouterID :: int
  Router :: Router
  Client :: nat
  LastPing :: nat
  IsHealthy :: bool

record TrafficStats =
  StatsRouterID :: int
  InterfaceName :: string
  RxBytes :: string
  TxBytes :: string
  RxPackets :: string
  TxPackets :: string
  RxBitsPerSec :: string
  TxBitsPerSec :: string
  Timestamp :: nat

text \<open>The errors of the dial worker and of \<open>dialWithTimeout\<close>, one per \<open>fmt.Errorf\<close>.\<close>

datatype dial_error =
    TcpDialFailed string
  | ClientCreationFailed string
  | LoginFailed string
  | ConnectionTimeout nat

text \<open>The errors of the service, one per \<open>fmt.Errorf\<close> site.\<close>

datatype svc_error =
    ErrRouterNotFound repo_error
  | ErrRouterNotActive
  | ErrFailedToConnect dial_error
  | ErrNotConnected
  | ErrRouterNotConnected svc_error
  | ErrUnhealthy
  | ErrStartMonitoring string
  | ErrNilConnection

text \<open>
  What a call does to the outside, in the order it does it: operations on the map lock
  \<open>ms.mu\<close>, queries to the repository, and calls to the device.
\<close>

datatype event =
    MuLock | MuUnlock | MuRLock | MuRUnlock
  | RepoGetByID int
  | RepoUpdateStatus int string
  | NetDial string
  | NetClose nat
  | NetRun nat "string list"
  | NetListen nat "string list"
  | NetListenCancel nat

text \<open>
  A running dispatch goroutine of \<open>MonitorInterfaceTrafficWithContext\<close>: it owns one
  open \<open>Listen\<close> of the device library, which its deferred \<open>listen.Cancel()\<close> closes when
  the goroutine returns.
\<close>

record Monitor =
  MonRouterID :: int
  MonInterface :: string
  MonListen :: nat
  MonCtx :: nat
  MonCallback :: nat

record MikrotikService =
  connections :: "int \<rightharpoonup> MikrotikConnection"
  repo :: RouterRepository
  monitors :: "Monitor list"
  nextTag :: nat
  trace :: "event list"

text \<open>
  The device side, as the calls of one operation see it. \<open>workerDelay\<close> is the time the
  dial worker needs to deliver its result (\<open>None\<close>: it never does); \<open>selectResultOnTie\<close>
  is the choice of Go's \<open>select\<close> when the result and the deadline are ready together.
\<close>

record env =
  now :: nat
  tcpDial :: "string \<Rightarrow> string + nat"
  newClient :: "nat \<Rightarrow> string + nat"
  login :: "nat \<Rightarrow> string \<Rightarrow> string \<Rightarrow> string option"
  workerDelay :: "string \<Rightarrow> nat option"
  selectResultOnTie :: bool
  runArgs :: "nat \<Rightarrow> string list \<Rightarrow> string + Sentence list"
  listenArgs :: "nat \<Rightarrow> string list \<Rightarrow> string option"

section \<open>Repository (repository/router.go)\<close>

definition GetByID :: "RouterRepository \<Rightarrow> int \<Rightarrow> repo_error + Router" where
  "GetByID r i =
     (case dbErr r of
        Some e \<Rightarrow> Inl (RepoDbError e)
      | None \<Rightarrow> (case rows r i of None \<Rightarrow> Inl RepoRouterNotFound | Some x \<Rightarrow> Inr x))"

definition UpdateStatus :: "nat \<Rightarrow> int \<Rightarrow> RouterStatusUpdate \<Rightarrow> RouterRepository \<Rightarrow> RouterRepository" where
  "UpdateStatus t i u r =
     (case dbErr r of
        Some e \<Rightarrow> r
      | None \<Rightarrow>
          (case rows r i of
             None \<Rightarrow> r
           | Some x \<Rightarrow>
               r\<lparr>rows := (rows r)(i \<mapsto>
                    x\<lparr>Status := uStatus u, Version := uVersion u, Uptime := uUptime u,
                      LastSeen := Some (case uLastSeen u of None \<Rightarrow> t | Some l \<Rightarrow> l),
                      UpdatedAt := t\<rparr>)\<rparr>))"

definition statusOnly :: "string \<Rightarrow> RouterStatusUpdate" where
  "statusOnly s = \<lparr>uStatus = s, uVersion = None, uUptime = None, uLastSeen = None\<rparr>"

section \<open>Decimal rendering (\<open>%d\<close>)\<close>

definition digitChar :: "nat \<Rightarrow> char" where
  "digitChar d =
     (if d = 0 then CHR ''0'' else if d = 1 then CHR ''1'' else if d = 2 then CHR ''2''
      else if d = 3 then CHR ''3'' else if d = 4 then CHR ''4'' else if d = 5 then CHR ''5''
      else if d = 6 then CHR ''6'' else if d = 7 then CHR ''7'' else if d = 8 then CHR ''8''
      else CHR ''9'')"

fun showNat :: "nat \<Rightarrow> string" where
  "showNat n = (if n < 10 then [digitChar n] else showNat (n div 10) @ [digitChar (n mod 10)])"

declare showNat.simps [simp del]

definition itoa :: "int \<Rightarrow> string" where
  "itoa i = (if i < 0 then CHR ''-'' # showNat (nat (- i)) else showNat (nat i))"

section \<open>Connection manager (services/mikrotik_service.go)\<close>

definition emit :: "event \<Rightarrow> MikrotikService \<Rightarrow> MikrotikService" where
  "emit e ms = ms\<lparr>trace := trace ms @ [e]\<rparr>"

text \<open>
  The body of the worker goroutine of \<open>dialWithTimeout\<close>: TCP dial, client creation,
  login; the first failure is the result.
\<close>

definition dialWorker :: "env \<Rightarrow> string \<Rightarrow> string \<Rightarrow> string \<Rightarrow> dial_error + nat" where
  "dialWorker e address username password =
     (case tcpDial e address of
        Inl err \<Rightarrow> Inl (TcpDialFailed err)
      | Inr conn \<Rightarrow>
          (case newClient e conn of
             Inl err \<Rightarrow> Inl (ClientCreationFailed err)
           | Inr client \<Rightarrow>
               (case login e client username password of
                  Some err \<Rightarrow> Inl (LoginFailed err)
                | None \<Rightarrow> Inr client)))"

text \<open>
  \<open>dialWithTimeout\<close>: the \<open>select\<close> takes the worker's result when it arrives before the
  deadline, the deadline when that comes first, and either one when both are ready.
\<close>

definition dialWithTimeout :: "env \<Rightarrow> string \<Rightarrow> string \<Rightarrow> string \<Rightarrow> nat \<Rightarrow> dial_error + nat" where
  "dialWithTimeout e address username password timeout =
     (case workerDelay e address of
        None \<Rightarrow> Inl (ConnectionTimeout timeout)
      | Some d \<Rightarrow>
          if d < timeout then dialWorker e address username password
          else if d = timeout \<and> selectResultOnTie e then dialWorker e address username password
          else Inl (ConnectionTimeout timeout))"

definition getSystemInfo :: "env \<Rightarrow> nat \<Rightarrow> string + SystemInfo" where
  "getSystemInfo e client =
     (case runArgs e client [''/system/resource/print''] of
        Inl err \<Rightarrow> Inl err
      | Inr re \<Rightarrow>
          (case re of
             [] \<Rightarrow> Inl ''no system info''
           | s # _ \<Rightarrow> Inr \<lparr>siVersion = mapGet (SMap s) ''version'',
                           siUptime = mapGet (SMap s) ''uptime''\<rparr>))"

definition onlineUpdate :: "(string + SystemInfo) \<Rightarrow> RouterStatusUpdate" where
  "onlineUpdate si =
     (case si of
        Inl err \<Rightarrow> statusOnly ''online''
      | Inr i \<Rightarrow> \<lparr>uStatus = ''online'', uVersion = Some (siVersion i),
                  uUptime = Some (siUptime i), uLastSeen = None\<rparr>)"

text \<open>
  \<open>ConnectRouter\<close> after the check of the existing entry: load the descriptor, dial,
  record the status, store the connection. The map lock is held by the caller.
\<close>

definition connectFresh :: "env \<Rightarrow> int \<Rightarrow> MikrotikService \<Rightarrow> svc_error option \<times> MikrotikService" where
  "connectFresh e routerID ms =
     (let ms1 = emit (RepoGetByID routerID) ms in
      case GetByID (repo ms1) routerID of
        Inl err \<Rightarrow> (Some (ErrRouterNotFound err), ms1)
      | Inr router \<Rightarrow>
          if \<not> IsActive router then (Some ErrRouterNotActive, ms1)
          else
            (let address = Hostname router @ '':'' @ itoa (Port router);
                 ms2 = emit (NetDial address) ms1
             in case dialWithTimeout e address (Username router) (Password router) 20 of
                  Inl err \<Rightarrow>
                    (Some (ErrFailedToConnect err),
                     (emit (RepoUpdateStatus routerID ''error'') ms2)
                       \<lparr>repo := UpdateStatus (now e) routerID (statusOnly ''error'') (repo ms2)\<rparr>)
                | Inr client \<Rightarrow>
                    (let ms3 = emit (NetRun client [''/system/resource/print'']) ms2;
                         systemInfo = getSystemInfo e client;
                         ms4 = (emit (RepoUpdateStatus routerID ''online'') ms3)
                                 \<lparr>repo := UpdateStatus (now e) routerID (onlineUpdate systemInfo) (repo ms3)\<rparr>
                     in (None,
                         ms4\<lparr>connections := (connections ms4)(routerID \<mapsto>
                                \<lparr>RouterID = routerID, Router = router, Client = client,
                                 LastPing = now e, IsHealthy = True\<rparr>)\<rparr>))))"

definition ConnectRouter :: "env \<Rightarrow> int \<Rightarrow> MikrotikService \<Rightarrow> svc_error option \<times> MikrotikService" where
  "ConnectRouter e routerID ms =
     (let ms1 = emit MuLock ms in
      case connections ms1 routerID of
        Some conn \<Rightarrow>
          if IsHealthy conn then (None, emit MuUnlock ms1)
          else
            (let ms2 = (emit (NetClose (Client conn)) ms1)
                         \<lparr>connections := (connections ms1)(routerID := None)\<rparr>;
                 r = connectFresh e routerID ms2
             in (fst r, emit MuUnlock (snd r)))
      | None \<Rightarrow>
          (let r = connectFresh e routerID ms1 in (fst r, emit MuUnlock (snd r))))"

definition DisconnectRouter :: "env \<Rightarrow> int \<Rightarrow> MikrotikService \<Rightarrow> svc_error option \<times> MikrotikService" where
  "DisconnectRouter e routerID ms =
     (let ms1 = emit MuLock ms in
      case connections ms1 routerID of
        None \<Rightarrow> (Some ErrNotConnected, emit MuUnlock ms1)
      | Some conn \<Rightarrow>
          (let ms2 = (emit (NetClose (Client conn)) ms1)
                       \<lparr>connections := (connections ms1)(routerID := None)\<rparr>;
               ms3 = (emit (RepoUpdateStatus routerID ''offline'') ms2)
                       \<lparr>repo := UpdateStatus (now e) routerID (statusOnly ''offline'') (repo ms2)\<rparr>
           in (None, emit MuUnlock ms3)))"

text \<open>
  \<open>GetConnection\<close>: a lookup under the read lock; a missing entry is connected, and the
  entry is read again. An entry that is present is returned only if it is healthy. The
  second read dereferences the entry, so an entry that is missing then is a nil
  dereference (\<open>ErrNilConnection\<close>).
\<close>

definition GetConnection :: "env \<Rightarrow> int \<Rightarrow> MikrotikService \<Rightarrow> (svc_error + MikrotikConnection) \<times> MikrotikService" where
  "GetConnection e routerID ms =
     (let ms1 = emit MuRUnlock (emit MuRLock ms) in
      case connections ms1 routerID of
        None \<Rightarrow>
          (case ConnectRouter e routerID ms1 of
             (Some err, ms2) \<Rightarrow> (Inl (ErrRouterNotConnected err), ms2)
           | (None, ms2) \<Rightarrow>
               (let ms3 = emit MuRUnlock (emit MuRLock ms2) in
                case connections ms3 routerID of
                  None \<Rightarrow> (Inl ErrNilConnection, ms3)
                | Some conn \<Rightarrow>
                    if \<not> IsHealthy conn then (Inl ErrUnhealthy, ms3) else (Inr conn, ms3)))
      | Some conn \<Rightarrow>
          if \<not> IsHealthy conn then (Inl ErrUnhealthy, ms1) else (Inr conn, ms1))"

section \<open>Continuous monitoring (services/mikrotik_service.go)\<close>

text \<open>
  \<open>MonitorInterfaceTrafficWithContext\<close> up to the start of its goroutine: get the
  connection, open a \<open>Listen\<close> on its client (without the connection's lock), start the
  goroutine. The device library tags each \<open>Listen\<close> with the next number of a counter.
\<close>

definition monitorCommand :: "string \<Rightarrow> string list" where
  "monitorCommand interfaceName = [''/interface/monitor-traffic'', ''=interface='' @ interfaceName]"





text \<open>
  The goroutine of \<open>MonitorInterfaceTrafficWithContext\<close>. Each element of the input is
  what one \<open>select\<close> of the loop takes: the context's cancellation, the closing of the
  channel, or a sentence, with the time and with whether the context is cancelled when
  the goroutine checks it before the callback. The result is the list of the samples the
  callback was called with. An input that ends leaves the goroutine waiting.
\<close>

datatype chan_ev = CtxDone | ChanClosed | Recv Sentence nat bool

fun monitorGoroutine :: "int \<Rightarrow> string \<Rightarrow> chan_ev list \<Rightarrow> TrafficStats list" where
  "monitorGoroutine routerID interfaceName [] = []"
| "monitorGoroutine routerID interfaceName (CtxDone # evs) = []"
| "monitorGoroutine routerID interfaceName (ChanClosed # evs) = []"
| "monitorGoroutine routerID interfaceName (Recv sentence t cancelled # evs) =
     (if SWord sentence = ''!trap'' then monitorGoroutine routerID interfaceName evs
      else if SWord sentence = ''!done'' then monitorGoroutine routerID interfaceName evs
      else if SWord sentence \<noteq> ''!re'' then monitorGoroutine routerID interfaceName evs
      else if cancelled then []
      else
        \<lparr>StatsRouterID = routerID, InterfaceName = interfaceName,
         RxBytes = mapGet (SMap sentence) ''rx-bytes'',
         TxBytes = mapGet (SMap sentence) ''tx-bytes'',
         RxPackets = mapGet (SMap sentence) ''rx-packets'',
         TxPackets = mapGet (SMap sentence) ''tx-packets'',
         RxBitsPerSec = mapGet (SMap sentence) ''rx-bits-per-second'',
         TxBitsPerSec = mapGet (SMap sentence) ''tx-bits-per-second'',
         Timestamp = t\<rparr> # monitorGoroutine routerID interfaceName evs)"

text \<open>The sentences a run has received, and whether a run is cut short.\<close>

fun received :: "chan_ev list \<Rightarrow> (Sentence \<times> nat) list" where
  "received [] = []"
| "received (CtxDone # evs) = []"
| "received (ChanClosed # evs) = []"
| "received (Recv sentence t cancelled # evs) = (sentence, t) # received evs"

fun uninterrupted :: "chan_ev list \<Rightarrow> bool" where
  "uninterrupted [] = True"
| "uninterrupted (CtxDone # evs) = False"
| "uninterrupted (ChanClosed # evs) = False"
| "uninterrupted (Recv sentence t cancelled # evs) = (\<not> cancelled \<and> uninterrupted evs)"

definition sampleOf :: "int \<Rightarrow> string \<Rightarrow> Sentence \<times> nat \<Rightarrow> TrafficStats" where
  "sampleOf routerID interfaceName p =
     \<lparr>StatsRouterID = routerID, InterfaceName = interfaceName,
      RxBytes = mapGet (SMap (fst p)) ''rx-bytes'',
      TxBytes = mapGet (SMap (fst p)) ''tx-bytes'',
      RxPackets = mapGet (SMap (fst p)) ''rx-packets'',
      TxPackets = mapGet (SMap (fst p)) ''tx-packets'',
      RxBitsPerSec = mapGet (SMap (fst p)) ''rx-bits-per-second'',
      TxBitsPerSec = mapGet (SMap (fst p)) ''tx-bits-per-second'',
      Timestamp = snd p\<rparr>"

section \<open>Error texts (\<open>%v\<close>)\<close>





section \<open>Streaming handler (handlers: \<open>MonitorTrafficWS\<close>)\<close>

















section \<open>The command lock of a connection (\<open>conn.mu\<close>)\<close>

text \<open>
  The one-shot operations of the service and the way each takes the lock of the
  connection around its commands: \<open>conn.mu.RLock()\<close> (shared) or \<open>conn.mu.Lock()\<close>
  (exclusive), released by the deferred unlock when the operation returns.
\<close>

datatype lock_mode = Shared | Exclusive

datatype one_shot =
    OpGetInterfaces | OpEnableInterface | OpDisableInterface
  | OpGetAddresses | OpAddAddress | OpRemoveAddress
  | OpGetQueues | OpAddQueue | OpRemoveQueue
  | OpGetInterfaceTrafficOnce

fun lockMode :: "one_shot \<Rightarrow> lock_mode" where
  "lockMode OpGetInterfaces = Shared"
| "lockMode OpEnableInterface = Exclusive"
| "lockMode OpDisableInterface = Exclusive"
| "lockMode OpGetAddresses = Shared"
| "lockMode OpAddAddress = Exclusive"
| "lockMode OpRemoveAddress = Exclusive"
| "lockMode OpGetQueues = Shared"
| "lockMode OpAddQueue = Exclusive"
| "lockMode OpRemoveQueue = Exclusive"
| "lockMode OpGetInterfaceTrafficOnce = Exclusive"

text \<open>
  An operation on one connection waits for the lock, then executes its commands holding
  it, then has returned. The operations on one connection are a list; a schedule names,
  step by step, the operation that moves next. A read-write mutex grants the shared lock
  unless an exclusive holder exists, and the exclusive lock only when nobody holds it; an
  operation that cannot take the lock stays where it is. (Go's mutex also makes new
  readers wait behind a writer that is already waiting; the schedules here include those
  of Go.)
\<close>

datatype phase = Waiting | Executing | Returned

definition isExecuting :: "one_shot \<times> phase \<Rightarrow> bool" where
  "isExecuting p = (snd p = Executing)"

definition isExecutingExclusive :: "one_shot \<times> phase \<Rightarrow> bool" where
  "isExecutingExclusive p = (snd p = Executing \<and> lockMode (fst p) = Exclusive)"

definition executing :: "(one_shot \<times> phase) list \<Rightarrow> nat" where
  "executing ops = length (filter isExecuting ops)"

definition executingExclusive :: "(one_shot \<times> phase) list \<Rightarrow> nat" where
  "executingExclusive ops = length (filter isExecutingExclusive ops)"

definition canAcquire :: "lock_mode \<Rightarrow> (one_shot \<times> phase) list \<Rightarrow> bool" where
  "canAcquire m ops =
     (case m of Shared \<Rightarrow> executingExclusive ops = 0 | Exclusive \<Rightarrow> executing ops = 0)"

definition stepOp :: "(one_shot \<times> phase) list \<Rightarrow> nat \<Rightarrow> (one_shot \<times> phase) list" where
  "stepOp ops i =
     (if i < length ops
      then (case snd (ops ! i) of
              Waiting \<Rightarrow>
                if canAcquire (lockMode (fst (ops ! i))) ops
                then ops[i := (fst (ops ! i), Executing)] else ops
            | Executing \<Rightarrow> ops[i := (fst (ops ! i), Returned)]
            | Returned \<Rightarrow> ops)
      else ops)"

definition runSchedule :: "one_shot list \<Rightarrow> nat list \<Rightarrow> (one_shot \<times> phase) list" where
  "runSchedule requests schedule = foldl stepOp (map (\<lambda>r. (r, Waiting)) requests) schedule"

section \<open>The map lock in the events of a call\<close>

fun isNet :: "event \<Rightarrow> bool" where
  "isNet (NetDial a) = True"
| "isNet (NetClose c) = True"
| "isNet (NetRun c cmd) = True"
| "isNet (NetListen c cmd) = True"
| "isNet (NetListenCancel l) = True"
| "isNet ev = False"

text \<open>
  Whether, in a sequence of events of one goroutine, a call to the device happens while
  the goroutine holds the map lock (\<open>held\<close>: it holds it at the start).
\<close>

fun netWhileLocked :: "bool \<Rightarrow> event list \<Rightarrow> bool" where
  "netWhileLocked held [] = False"
| "netWhileLocked held (MuLock # evs) = netWhileLocked True evs"
| "netWhileLocked held (MuRLock # evs) = netWhileLocked True evs"
| "netWhileLocked held (MuUnlock # evs) = netWhileLocked False evs"
| "netWhileLocked held (MuRUnlock # evs) = netWhileLocked False evs"
| "netWhileLocked held (ev # evs) = ((held \<and> isNet ev) \<or> netWhileLocked held evs)"

definition callEvents :: "MikrotikService \<Rightarrow> MikrotikService \<Rightarrow> event list" where
  "callEvents ms ms' = drop (length (trace ms)) (trace ms')"

fun isLockEvent :: "event \<Rightarrow> bool" where
  "isLockEvent MuLock = True"
| "isLockEvent MuUnlock = True"
| "isLockEvent MuRLock = True"
| "isLockEvent MuRUnlock = True"
| "isLockEvent ev = False"

section \<open>Example inputs\<close>

definition router1 :: Router where
  "router1 = \<lparr>ID = 1, Name = ''core'', Hostname = ''10.0.0.1'', Username = ''admin'',
              Password = ''secret'', Port = 8728, IsActive = True, LastSeen = None,
              Status = ''offline'', Version = None, Uptime = None, UpdatedAt = 0\<rparr>"

definition router2 :: Router where
  "router2 = \<lparr>ID = 2, Name = ''branch'', Hostname = ''10.0.0.2'', Username = ''admin'',
              Password = ''secret'', Port = 8728, IsActive = False, LastSeen = None,
              Status = ''offline'', Version = None, Uptime = None, UpdatedAt = 0\<rparr>"

definition repo0 :: RouterRepository where
  "repo0 = \<lparr>rows = [1 \<mapsto> router1, 2 \<mapsto> router2], dbErr = None\<rparr>"

definition ms0 :: MikrotikService where
  "ms0 = \<lparr>connections = Map.empty, repo = repo0, monitors = [], nextTag = 0, trace = []\<rparr>"

definition conn1 :: MikrotikConnection where
  "conn1 = \<lparr>RouterID = 1, Router = router1, Client = 5, LastPing = 0, IsHealthy = True\<rparr>"

definition msHealthy :: MikrotikService where
  "msHealthy = ms0\<lparr>connections := [1 \<mapsto> conn1]\<rparr>"

definition connStale :: MikrotikConnection where
  "connStale = \<lparr>RouterID = 1, Router = router1, Client = 5, LastPing = 0, IsHealthy = False\<rparr>"

definition msUnhealthy :: MikrotikService where
  "msUnhealthy = ms0\<lparr>connections := [1 \<mapsto> connStale]\<rparr>"

text \<open>
  A device whose dial worker delivers after one second, which accepts the password
  \<open>secret\<close>, reports its version, and rejects a \<open>Listen\<close> on the interface
  \<open>doesnotexist\<close>.
\<close>

definition envUp :: env where
  "envUp =
     \<lparr>now = 100,
      tcpDial = (\<lambda>a. Inr 7),
      newClient = (\<lambda>c. Inr 8),
      login = (\<lambda>c u p. if p = ''secret'' then None else Some ''invalid user name or password''),
      workerDelay = (\<lambda>a. Some 1),
      selectResultOnTie = True,
      runArgs = (\<lambda>c cmd. Inr [\<lparr>SWord = ''!re'', SMap = [(''version'', ''7.1''), (''uptime'', ''1d'')]\<rparr>]),
      listenArgs = (\<lambda>c cmd. if cmd = monitorCommand ''doesnotexist'' then Some ''no such item'' else None)\<rparr>"

text \<open>A device that never answers the dial.\<close>

definition envSilent :: env where
  "envSilent = envUp\<lparr>workerDelay := (\<lambda>a. None)\<rparr>"

text \<open>A device whose dial worker delivers its client only after 25 seconds.\<close>

definition envSlow :: env where
  "envSlow = envUp\<lparr>workerDelay := (\<lambda>a. Some 25)\<rparr>"

text \<open>A device that refuses the TCP connection at once.\<close>

definition envRefused :: env where
  "envRefused = envUp\<lparr>tcpDial := (\<lambda>a. Inl ''connection refused'')\<rparr>"

definition reSentence :: Sentence where
  "reSentence = \<lparr>SWord = ''!re'',
                 SMap = [(''rx-bytes'', ''1000''), (''tx-bytes'', ''2000''),
                         (''rx-packets'', ''10''), (''tx-packets'', ''20''),
                         (''rx-bits-per-second'', ''8000''), (''tx-bits-per-second'', ''16000'')]\<rparr>"

definition trapSentence :: Sentence where
  "trapSentence = \<lparr>SWord = ''!trap'', SMap = [(''message'', ''no such item'')]\<rparr>"

definition doneSentence :: Sentence where
  "doneSentence = \<lparr>SWord = ''!done'', SMap = []\<rparr>"

definition sample1 :: TrafficStats where
  "sample1 = \<lparr>StatsRouterID = 1, InterfaceName = ''ether1'', RxBytes = ''1000'', TxBytes = ''2000'',
              RxPackets = ''10'', TxPackets = ''20'', RxBitsPerSec = ''8000'',
              TxBitsPerSec = ''16000'', Timestamp = 100\<rparr>"

section \<open>Basic facts about the event log\<close>

lemma trace_emit [simp]: "trace (emit ev ms) = trace ms @ [ev]"
  and connections_emit [simp]: "connections (emit ev ms) = connections ms"
  and repo_emit [simp]: "repo (emit ev ms) = repo ms"
  and monitors_emit [simp]: "monitors (emit ev ms) = monitors ms"
  and nextTag_emit [simp]: "nextTag (emit ev ms) = nextTag ms"
  by (simp_all add: emit_def)

lemma callEvents_append [simp]: "trace ms' = trace ms @ evs \<Longrightarrow> callEvents ms ms' = evs"
  by (simp add: callEvents_def)

section \<open>ConnectRouter on a deactivated device\<close>

text \<open>
  Claim C5. When the connection map has no entry for the device, the descriptor loads
  from the registry and its activation flag is false, \<open>ConnectRouter\<close> fails with
  "router is not active", leaves the connection map and the registry as they were, and
  its only events are taking the lock, the registry query and releasing the lock: no dial.
\<close>

theorem ConnectRouter_inactive:
  assumes "connections ms routerID = None"
    and "GetByID (repo ms) routerID = Inr router"
    and "\<not> IsActive router"
  shows "fst (ConnectRouter e routerID ms) = Some ErrRouterNotActive
       \<and> connections (snd (ConnectRouter e routerID ms)) = connections ms
       \<and> repo (snd (ConnectRouter e routerID ms)) = repo ms
       \<and> callEvents ms (snd (ConnectRouter e routerID ms)) = [MuLock, RepoGetByID routerID, MuUnlock]"
  using assms by (simp add: ConnectRouter_def connectFresh_def Let_def)

theorem ConnectRouter_inactive_witness:
  "connections ms0 2 = None \<and> GetByID (repo ms0) 2 = Inr router2 \<and> \<not> IsActive router2
   \<and> fst (ConnectRouter envUp 2 ms0) = Some ErrRouterNotActive
   \<and> connections (snd (ConnectRouter envUp 2 ms0)) = connections ms0
   \<and> repo (snd (ConnectRouter envUp 2 ms0)) = repo ms0
   \<and> callEvents ms0 (snd (ConnectRouter envUp 2 ms0)) = [MuLock, RepoGetByID 2, MuUnlock]"
proof -
  have a: "connections ms0 2 = None" by (simp add: ms0_def)
  have b: "GetByID (repo ms0) 2 = Inr router2" by (simp add: ms0_def repo0_def GetByID_def)
  have c: "\<not> IsActive router2" by (simp add: router2_def)
  show ?thesis using ConnectRouter_inactive [OF a b c, of envUp] a b c by simp
qed

section \<open>ConnectRouter on a healthy connection\<close>

text \<open>
  Claim C10. When the connection map has a healthy entry for the router,
  \<open>ConnectRouter\<close> succeeds and changes neither the connection map nor the registry nor
  the running monitors; its only events are taking and releasing the lock: the
  descriptor is not loaded and nothing is dialled.
\<close>

theorem ConnectRouter_healthy_idempotent:
  assumes "connections ms routerID = Some conn" and "IsHealthy conn"
  shows "fst (ConnectRouter e routerID ms) = None
       \<and> connections (snd (ConnectRouter e routerID ms)) = connections ms
       \<and> repo (snd (ConnectRouter e routerID ms)) = repo ms
       \<and> monitors (snd (ConnectRouter e routerID ms)) = monitors ms
       \<and> callEvents ms (snd (ConnectRouter e routerID ms)) = [MuLock, MuUnlock]"
  using assms by (simp add: ConnectRouter_def Let_def)

theorem ConnectRouter_healthy_idempotent_witness:
  "connections msHealthy 1 = Some conn1 \<and> IsHealthy conn1
   \<and> fst (ConnectRouter envSilent 1 msHealthy) = None
   \<and> connections (snd (ConnectRouter envSilent 1 msHealthy)) = connections msHealthy
   \<and> repo (snd (ConnectRouter envSilent 1 msHealthy)) = repo msHealthy
   \<and> callEvents msHealthy (snd (ConnectRouter envSilent 1 msHealthy)) = [MuLock, MuUnlock]"
proof -
  have a: "connections msHealthy 1 = Some conn1" by (simp add: msHealthy_def)
  have b: "IsHealthy conn1" by (simp add: conn1_def)
  show ?thesis using ConnectRouter_healthy_idempotent [OF a b, of envSilent] a b by simp
qed

section \<open>Facts about the registry and the fresh connect\<close>

lemma UpdateStatus_status:
  "GetByID r i = Inr x \<Longrightarrow> map_option Status (rows (UpdateStatus t i u r) i) = Some (uStatus u)"
  by (auto simp: GetByID_def UpdateStatus_def split: option.splits)

lemma connectFresh_dial_failed:
  assumes "GetByID (repo ms) routerID = Inr router" and "IsActive router"
    and "dialWithTimeout e (Hostname router @ '':'' @ itoa (Port router)) (Username router) (Password router) 20 = Inl err"
  shows "fst (connectFresh e routerID ms) = Some (ErrFailedToConnect err)"
    and "connections (snd (connectFresh e routerID ms)) = connections ms"
    and "repo (snd (connectFresh e routerID ms)) = UpdateStatus (now e) routerID (statusOnly ''error'') (repo ms)"
    and "trace (snd (connectFresh e routerID ms)) = trace ms @
          [RepoGetByID routerID, NetDial (Hostname router @ '':'' @ itoa (Port router)), RepoUpdateStatus routerID ''error'']"
  using assms by (simp_all add: connectFresh_def Let_def)

lemma connectFresh_dial_ok:
  assumes "GetByID (repo ms) routerID = Inr router" and "IsActive router"
    and "dialWithTimeout e (Hostname router @ '':'' @ itoa (Port router)) (Username router) (Password router) 20 = Inr client"
  shows "fst (connectFresh e routerID ms) = None"
    and "connections (snd (connectFresh e routerID ms)) = (connections ms)(routerID \<mapsto>
           \<lparr>RouterID = routerID, Router = router, Client = client, LastPing = now e, IsHealthy = True\<rparr>)"
    and "repo (snd (connectFresh e routerID ms)) = UpdateStatus (now e) routerID (onlineUpdate (getSystemInfo e client)) (repo ms)"
    and "trace (snd (connectFresh e routerID ms)) = trace ms @
          [RepoGetByID routerID, NetDial (Hostname router @ '':'' @ itoa (Port router)),
           NetRun client [''/system/resource/print''], RepoUpdateStatus routerID ''online'']"
  using assms by (simp_all add: connectFresh_def Let_def)

section \<open>DisconnectRouter\<close>

text \<open>
  Claim C9. When the connection map has a session for the device, \<open>DisconnectRouter\<close>
  succeeds, removes the entry, closes the client and writes the status "offline" to the
  registry (so a row that loads has that status afterwards). When the map has no session,
  it fails with "router not connected" and leaves the connection map and the registry
  unchanged: its only events are taking and releasing the lock.
\<close>

theorem DisconnectRouter_present_or_absent:
  "(\<forall>conn. connections ms routerID = Some conn \<longrightarrow>
      fst (DisconnectRouter e routerID ms) = None
    \<and> connections (snd (DisconnectRouter e routerID ms)) = (connections ms)(routerID := None)
    \<and> repo (snd (DisconnectRouter e routerID ms)) = UpdateStatus (now e) routerID (statusOnly ''offline'') (repo ms)
    \<and> (\<forall>row. GetByID (repo ms) routerID = Inr row \<longrightarrow>
          map_option Status (rows (repo (snd (DisconnectRouter e routerID ms))) routerID) = Some ''offline'')
    \<and> callEvents ms (snd (DisconnectRouter e routerID ms))
        = [MuLock, NetClose (Client conn), RepoUpdateStatus routerID ''offline'', MuUnlock])
 \<and> (connections ms routerID = None \<longrightarrow>
      fst (DisconnectRouter e routerID ms) = Some ErrNotConnected
    \<and> connections (snd (DisconnectRouter e routerID ms)) = connections ms
    \<and> repo (snd (DisconnectRouter e routerID ms)) = repo ms
    \<and> callEvents ms (snd (DisconnectRouter e routerID ms)) = [MuLock, MuUnlock])"
  by (auto simp: DisconnectRouter_def Let_def UpdateStatus_status [where u = "statusOnly ''offline''", simplified statusOnly_def, simplified] statusOnly_def)

theorem DisconnectRouter_present_or_absent_witness:
  "connections msHealthy 1 = Some conn1
   \<and> fst (DisconnectRouter envUp 1 msHealthy) = None
   \<and> connections (snd (DisconnectRouter envUp 1 msHealthy)) 1 = None
   \<and> map_option Status (rows (repo (snd (DisconnectRouter envUp 1 msHealthy))) 1) = Some ''offline''
   \<and> callEvents msHealthy (snd (DisconnectRouter envUp 1 msHealthy))
       = [MuLock, NetClose 5, RepoUpdateStatus 1 ''offline'', MuUnlock]
   \<and> connections ms0 1 = None
   \<and> fst (DisconnectRouter envUp 1 ms0) = Some ErrNotConnected
   \<and> connections (snd (DisconnectRouter envUp 1 ms0)) = connections ms0
   \<and> repo (snd (DisconnectRouter envUp 1 ms0)) = repo ms0
   \<and> callEvents ms0 (snd (DisconnectRouter envUp 1 ms0)) = [MuLock, MuUnlock]"
proof -
  have a: "connections msHealthy 1 = Some conn1" by (simp add: msHealthy_def)
  have b: "connections ms0 1 = None" by (simp add: ms0_def)
  have c: "GetByID (repo msHealthy) 1 = Inr router1"
    by (simp add: msHealthy_def ms0_def repo0_def GetByID_def)
  have d: "Client conn1 = 5" by (simp add: conn1_def)
  have p: "fst (DisconnectRouter envUp 1 msHealthy) = None
    \<and> connections (snd (DisconnectRouter envUp 1 msHealthy)) = (connections msHealthy)(1 := None)
    \<and> map_option Status (rows (repo (snd (DisconnectRouter envUp 1 msHealthy))) 1) = Some ''offline''
    \<and> callEvents msHealthy (snd (DisconnectRouter envUp 1 msHealthy))
        = [MuLock, NetClose (Client conn1), RepoUpdateStatus 1 ''offline'', MuUnlock]"
    using DisconnectRouter_present_or_absent [of msHealthy 1 envUp] a c by blast
  have q: "fst (DisconnectRouter envUp 1 ms0) = Some ErrNotConnected
    \<and> connections (snd (DisconnectRouter envUp 1 ms0)) = connections ms0
    \<and> repo (snd (DisconnectRouter envUp 1 ms0)) = repo ms0
    \<and> callEvents ms0 (snd (DisconnectRouter envUp 1 ms0)) = [MuLock, MuUnlock]"
    using DisconnectRouter_present_or_absent [of ms0 1 envUp] b by blast
  from p have p': "connections (snd (DisconnectRouter envUp 1 msHealthy)) 1 = None" by simp
  show ?thesis using p p' q a b d by simp
qed

section \<open>An unhealthy session\<close>

text \<open>
  Claim C2, as stated, fails: with an unhealthy entry for router 1, a registry row that
  loads and is active, and a device whose dial and login succeed, \<open>GetConnection\<close>
  returns "router connection unhealthy"; the stale entry stays in the map, and nothing is
  closed or dialled.
\<close>

theorem GetConnection_unhealthy_counterexample:
  "connections msUnhealthy 1 = Some connStale
   \<and> GetByID (repo msUnhealthy) 1 = Inr router1 \<and> IsActive router1
   \<and> dialWithTimeout envUp ''10.0.0.1:8728'' ''admin'' ''secret'' 20 = Inr 8
   \<and> fst (GetConnection envUp 1 msUnhealthy) = Inl ErrUnhealthy
   \<and> connections (snd (GetConnection envUp 1 msUnhealthy)) 1 = Some connStale
   \<and> callEvents msUnhealthy (snd (GetConnection envUp 1 msUnhealthy)) = [MuRLock, MuRUnlock]"
  by (simp add: msUnhealthy_def ms0_def repo0_def GetByID_def router1_def connStale_def envUp_def
      dialWithTimeout_def dialWorker_def GetConnection_def Let_def)

text \<open>
  Claim C2, amended. For an unhealthy entry, \<open>GetConnection\<close> fails with "router
  connection unhealthy" and changes neither the connection map nor the registry. It is
  \<open>ConnectRouter\<close> that closes the stale client, removes the entry, and, when the
  descriptor loads, is active and the dial with login succeeds, stores a fresh healthy
  session with the new client.
\<close>

theorem unhealthy_session_handling:
  assumes "connections ms routerID = Some conn" and "\<not> IsHealthy conn"
  shows "fst (GetConnection e routerID ms) = Inl ErrUnhealthy
       \<and> connections (snd (GetConnection e routerID ms)) = connections ms
       \<and> repo (snd (GetConnection e routerID ms)) = repo ms
       \<and> callEvents ms (snd (GetConnection e routerID ms)) = [MuRLock, MuRUnlock]
       \<and> (\<forall>router client.
            GetByID (repo ms) routerID = Inr router \<and> IsActive router
            \<and> dialWithTimeout e (Hostname router @ '':'' @ itoa (Port router))
                 (Username router) (Password router) 20 = Inr client
            \<longrightarrow> fst (ConnectRouter e routerID ms) = None
              \<and> connections (snd (ConnectRouter e routerID ms)) routerID
                  = Some \<lparr>RouterID = routerID, Router = router, Client = client,
                          LastPing = now e, IsHealthy = True\<rparr>
              \<and> callEvents ms (snd (ConnectRouter e routerID ms))
                  = [MuLock, NetClose (Client conn), RepoGetByID routerID,
                     NetDial (Hostname router @ '':'' @ itoa (Port router)),
                     NetRun client [''/system/resource/print''],
                     RepoUpdateStatus routerID ''online'', MuUnlock])"
proof -
  have g: "fst (GetConnection e routerID ms) = Inl ErrUnhealthy
       \<and> connections (snd (GetConnection e routerID ms)) = connections ms
       \<and> repo (snd (GetConnection e routerID ms)) = repo ms
       \<and> callEvents ms (snd (GetConnection e routerID ms)) = [MuRLock, MuRUnlock]"
    using assms by (simp add: GetConnection_def Let_def)
  have c: "fst (ConnectRouter e routerID ms) = None
              \<and> connections (snd (ConnectRouter e routerID ms)) routerID
                  = Some \<lparr>RouterID = routerID, Router = router, Client = client,
                          LastPing = now e, IsHealthy = True\<rparr>
              \<and> callEvents ms (snd (ConnectRouter e routerID ms))
                  = [MuLock, NetClose (Client conn), RepoGetByID routerID,
                     NetDial (Hostname router @ '':'' @ itoa (Port router)),
                     NetRun client [''/system/resource/print''],
                     RepoUpdateStatus routerID ''online'', MuUnlock]"
    if h: "GetByID (repo ms) routerID = Inr router" "IsActive router"
       "dialWithTimeout e (Hostname router @ '':'' @ itoa (Port router))
                 (Username router) (Password router) 20 = Inr client"
    for router client
  proof -
    let ?ms2 = "(emit (NetClose (Client conn)) (emit MuLock ms))
                  \<lparr>connections := (connections (emit MuLock ms))(routerID := None)\<rparr>"
    have r: "GetByID (repo ?ms2) routerID = Inr router" using h(1) by simp
    show ?thesis
      using assms connectFresh_dial_ok [OF r h(2) h(3)]
      by (simp add: ConnectRouter_def Let_def)
  qed
  from g c show ?thesis by blast
qed


theorem unhealthy_session_handling_witness:
  "connections msUnhealthy 1 = Some connStale
   \<and> \<not> IsHealthy connStale
   \<and> GetByID (repo msUnhealthy) 1 = Inr router1 \<and> IsActive router1
   \<and> dialWithTimeout envUp (Hostname router1 @ '':'' @ itoa (Port router1))
        (Username router1) (Password router1) 20 = Inr 8
   \<and> fst (GetConnection envUp 1 msUnhealthy) = Inl ErrUnhealthy
   \<and> connections (snd (GetConnection envUp 1 msUnhealthy)) = connections msUnhealthy
   \<and> fst (ConnectRouter envUp 1 msUnhealthy) = None
   \<and> connections (snd (ConnectRouter envUp 1 msUnhealthy)) 1
       = Some \<lparr>RouterID = 1, Router = router1, Client = 8, LastPing = 100, IsHealthy = True\<rparr>"
proof -
  have a: "connections msUnhealthy 1 = Some connStale"
    by (simp add: msUnhealthy_def)
  have b: "\<not> IsHealthy connStale" by (simp add: connStale_def)
  have c: "GetByID (repo msUnhealthy) 1 = Inr router1"
    by (simp add: msUnhealthy_def ms0_def repo0_def GetByID_def)
  have d: "IsActive router1" by (simp add: router1_def)
  have f: "dialWithTimeout envUp (Hostname router1 @ '':'' @ itoa (Port router1))
        (Username router1) (Password router1) 20 = Inr 8"
    by (simp add: envUp_def dialWithTimeout_def dialWorker_def router1_def)
  have n: "now envUp = 100" by (simp add: envUp_def)
  from unhealthy_session_handling [OF a b, of envUp] c d f
  have "fst (GetConnection envUp 1 msUnhealthy) = Inl ErrUnhealthy
   \<and> connections (snd (GetConnection envUp 1 msUnhealthy)) = connections msUnhealthy
   \<and> fst (ConnectRouter envUp 1 msUnhealthy) = None
   \<and> connections (snd (ConnectRouter envUp 1 msUnhealthy)) 1
       = Some \<lparr>RouterID = 1, Router = router1, Client = 8, LastPing = now envUp, IsHealthy = True\<rparr>"
    by blast
  with a b c d f n show ?thesis by simp
qed

section \<open>The bounded dial\<close>

lemma dialWorker_outcomes:
  "(\<forall>err. tcpDial e address = Inl err \<longrightarrow>
        dialWorker e address username password = Inl (TcpDialFailed err))
   \<and> (\<forall>conn err. tcpDial e address = Inr conn \<and> newClient e conn = Inl err \<longrightarrow>
        dialWorker e address username password = Inl (ClientCreationFailed err))
   \<and> (\<forall>conn client err. tcpDial e address = Inr conn \<and> newClient e conn = Inr client
          \<and> login e client username password = Some err \<longrightarrow>
        dialWorker e address username password = Inl (LoginFailed err))
   \<and> (\<forall>conn client. tcpDial e address = Inr conn \<and> newClient e conn = Inr client
          \<and> login e client username password = None \<longrightarrow>
        dialWorker e address username password = Inr client)"
  by (simp add: dialWorker_def)

lemma dialWorker_client:
  "dialWorker e address username password = Inr client \<Longrightarrow>
     \<exists>conn. tcpDial e address = Inr conn \<and> newClient e conn = Inr client
        \<and> login e client username password = None"
  by (auto simp: dialWorker_def split: sum.splits option.splits)

text \<open>
  Claim C6. \<open>dialWithTimeout\<close> returns either the result of its worker or the timeout
  error, which carries no client; it returns the worker's result whenever the worker
  delivers before the bound, and the timeout error whenever the worker delivers after the
  bound or never (its late result is not used). The worker's result, returned when it
  delivers in time, is the error of the TCP dial, else the error of the client creation,
  else the error of the login, else the client; and a client that \<open>dialWithTimeout\<close>
  returns is always one that was dialled, created and logged in with the given user and
  password. \<open>ConnectRouter\<close> dials with the bound 20; when the dial fails, it returns
  the failure to its caller, stores no connection, and writes the status "error" to the
  registry.
\<close>

theorem dialWithTimeout_race:
  "(dialWithTimeout e address username password timeout = dialWorker e address username password
      \<or> dialWithTimeout e address username password timeout = Inl (ConnectionTimeout timeout))
   \<and> (\<forall>d. workerDelay e address = Some d \<and> d < timeout \<longrightarrow>
          dialWithTimeout e address username password timeout = dialWorker e address username password)
   \<and> (workerDelay e address = None \<longrightarrow>
          dialWithTimeout e address username password timeout = Inl (ConnectionTimeout timeout))
   \<and> (\<forall>d. workerDelay e address = Some d \<and> timeout < d \<longrightarrow>
          dialWithTimeout e address username password timeout = Inl (ConnectionTimeout timeout))
   \<and> (\<forall>d. workerDelay e address = Some d \<and> d < timeout \<longrightarrow>
          (\<forall>err. tcpDial e address = Inl err \<longrightarrow>
             dialWithTimeout e address username password timeout = Inl (TcpDialFailed err))
        \<and> (\<forall>conn err. tcpDial e address = Inr conn \<and> newClient e conn = Inl err \<longrightarrow>
             dialWithTimeout e address username password timeout = Inl (ClientCreationFailed err))
        \<and> (\<forall>conn client err. tcpDial e address = Inr conn \<and> newClient e conn = Inr client
               \<and> login e client username password = Some err \<longrightarrow>
             dialWithTimeout e address username password timeout = Inl (LoginFailed err))
        \<and> (\<forall>conn client. tcpDial e address = Inr conn \<and> newClient e conn = Inr client
               \<and> login e client username password = None \<longrightarrow>
             dialWithTimeout e address username password timeout = Inr client))
   \<and> (\<forall>client. dialWithTimeout e address username password timeout = Inr client \<longrightarrow>
          (\<exists>conn. tcpDial e address = Inr conn \<and> newClient e conn = Inr client
             \<and> login e client username password = None))
   \<and> (\<forall>router err.
          (\<forall>conn. connections ms routerID = Some conn \<longrightarrow> \<not> IsHealthy conn)
          \<and> GetByID (repo ms) routerID = Inr router \<and> IsActive router
          \<and> dialWithTimeout e (Hostname router @ '':'' @ itoa (Port router))
               (Username router) (Password router) 20 = Inl err
          \<longrightarrow> fst (ConnectRouter e routerID ms) = Some (ErrFailedToConnect err)
            \<and> connections (snd (ConnectRouter e routerID ms)) routerID = None
            \<and> repo (snd (ConnectRouter e routerID ms))
                = UpdateStatus (now e) routerID (statusOnly ''error'') (repo ms)
            \<and> map_option Status (rows (repo (snd (ConnectRouter e routerID ms))) routerID)
                = Some ''error'')"
proof -
  have r: "dialWithTimeout e address username password timeout = dialWorker e address username password
      \<or> dialWithTimeout e address username password timeout = Inl (ConnectionTimeout timeout)"
    by (simp add: dialWithTimeout_def split: option.splits)
  have f: "\<forall>d. workerDelay e address = Some d \<and> d < timeout \<longrightarrow>
          dialWithTimeout e address username password timeout = dialWorker e address username password"
    by (simp add: dialWithTimeout_def)
  have n: "workerDelay e address = None \<longrightarrow>
          dialWithTimeout e address username password timeout = Inl (ConnectionTimeout timeout)"
    by (simp add: dialWithTimeout_def)
  have l: "\<forall>d. workerDelay e address = Some d \<and> timeout < d \<longrightarrow>
          dialWithTimeout e address username password timeout = Inl (ConnectionTimeout timeout)"
    by (simp add: dialWithTimeout_def)
  have w: "\<forall>d. workerDelay e address = Some d \<and> d < timeout \<longrightarrow>
          (\<forall>err. tcpDial e address = Inl err \<longrightarrow>
             dialWithTimeout e address username password timeout = Inl (TcpDialFailed err))
        \<and> (\<forall>conn err. tcpDial e address = Inr conn \<and> newClient e conn = Inl err \<longrightarrow>
             dialWithTimeout e address username password timeout = Inl (ClientCreationFailed err))
        \<and> (\<forall>conn client err. tcpDial e address = Inr conn \<and> newClient e conn = Inr client
               \<and> login e client username password = Some err \<longrightarrow>
             dialWithTimeout e address username password timeout = Inl (LoginFailed err))
        \<and> (\<forall>conn client. tcpDial e address = Inr conn \<and> newClient e conn = Inr client
               \<and> login e client username password = None \<longrightarrow>
             dialWithTimeout e address username password timeout = Inr client)"
  proof (intro allI impI)
    fix d
    assume "workerDelay e address = Some d \<and> d < timeout"
    with f have eq: "dialWithTimeout e address username password timeout
                       = dialWorker e address username password" by blast
    show "(\<forall>err. tcpDial e address = Inl err \<longrightarrow>
             dialWithTimeout e address username password timeout = Inl (TcpDialFailed err))
        \<and> (\<forall>conn err. tcpDial e address = Inr conn \<and> newClient e conn = Inl err \<longrightarrow>
             dialWithTimeout e address username password timeout = Inl (ClientCreationFailed err))
        \<and> (\<forall>conn client err. tcpDial e address = Inr conn \<and> newClient e conn = Inr client
               \<and> login e client username password = Some err \<longrightarrow>
             dialWithTimeout e address username password timeout = Inl (LoginFailed err))
        \<and> (\<forall>conn client. tcpDial e address = Inr conn \<and> newClient e conn = Inr client
               \<and> login e client username password = None \<longrightarrow>
             dialWithTimeout e address username password timeout = Inr client)"
      unfolding eq by (rule dialWorker_outcomes)
  qed
  have a: "\<forall>client. dialWithTimeout e address username password timeout = Inr client \<longrightarrow>
          (\<exists>conn. tcpDial e address = Inr conn \<and> newClient e conn = Inr client
             \<and> login e client username password = None)"
  proof (intro allI impI)
    fix client
    assume "dialWithTimeout e address username password timeout = Inr client"
    with r have "dialWorker e address username password = Inr client" by auto
    then show "\<exists>conn. tcpDial e address = Inr conn \<and> newClient e conn = Inr client
             \<and> login e client username password = None"
      by (rule dialWorker_client)
  qed
  have c: "fst (ConnectRouter e routerID ms) = Some (ErrFailedToConnect err)
            \<and> connections (snd (ConnectRouter e routerID ms)) routerID = None
            \<and> repo (snd (ConnectRouter e routerID ms))
                = UpdateStatus (now e) routerID (statusOnly ''error'') (repo ms)
            \<and> map_option Status (rows (repo (snd (ConnectRouter e routerID ms))) routerID)
                = Some ''error''"
    if h: "\<forall>conn. connections ms routerID = Some conn \<longrightarrow> \<not> IsHealthy conn"
      "GetByID (repo ms) routerID = Inr router" "IsActive router"
      "dialWithTimeout e (Hostname router @ '':'' @ itoa (Port router))
               (Username router) (Password router) 20 = Inl err"
    for router err
  proof -
    have s: "map_option Status (rows (UpdateStatus (now e) routerID (statusOnly ''error'') (repo ms)) routerID)
               = Some ''error''"
      using UpdateStatus_status [OF h(2), of "now e" "statusOnly ''error''"]
      by (simp add: statusOnly_def)
    show ?thesis
    proof (cases "connections ms routerID")
      case None
      have g: "GetByID (repo (emit MuLock ms)) routerID = Inr router" using h(2) by simp
      show ?thesis
        using None s connectFresh_dial_failed [OF g h(3) h(4)]
        by (simp add: ConnectRouter_def Let_def)
    next
      case (Some conn)
      let ?ms2 = "(emit (NetClose (Client conn)) (emit MuLock ms))
                  \<lparr>connections := (connections (emit MuLock ms))(routerID := None)\<rparr>"
      have g: "GetByID (repo ?ms2) routerID = Inr router" using h(2) by simp
      have u: "\<not> IsHealthy conn" using h(1) Some by simp
      show ?thesis
        using Some u s connectFresh_dial_failed [OF g h(3) h(4)]
        by (simp add: ConnectRouter_def Let_def)
    qed
  qed
  from r f n l w a c show ?thesis by blast
qed

theorem dialWithTimeout_race_witness:
  "workerDelay envUp ''10.0.0.1:8728'' = Some 1
   \<and> dialWithTimeout envUp ''10.0.0.1:8728'' ''admin'' ''secret'' 20 = Inr 8
   \<and> tcpDial envUp ''10.0.0.1:8728'' = Inr 7 \<and> newClient envUp 7 = Inr 8
   \<and> login envUp 8 ''admin'' ''wrong'' = Some ''invalid user name or password''
   \<and> dialWithTimeout envUp ''10.0.0.1:8728'' ''admin'' ''wrong'' 20
       = Inl (LoginFailed ''invalid user name or password'')
   \<and> workerDelay envRefused ''10.0.0.1:8728'' = Some 1
   \<and> dialWithTimeout envRefused ''10.0.0.1:8728'' ''admin'' ''secret'' 20
       = Inl (TcpDialFailed ''connection refused'')
   \<and> workerDelay envSlow ''10.0.0.1:8728'' = Some 25
   \<and> dialWithTimeout envSlow ''10.0.0.1:8728'' ''admin'' ''secret'' 20 = Inl (ConnectionTimeout 20)
   \<and> workerDelay envSilent ''10.0.0.1:8728'' = None
   \<and> connections ms0 1 = None
   \<and> GetByID (repo ms0) 1 = Inr router1 \<and> IsActive router1
   \<and> dialWithTimeout envSilent (Hostname router1 @ '':'' @ itoa (Port router1))
        (Username router1) (Password router1) 20 = Inl (ConnectionTimeout 20)
   \<and> fst (ConnectRouter envSilent 1 ms0) = Some (ErrFailedToConnect (ConnectionTimeout 20))
   \<and> connections (snd (ConnectRouter envSilent 1 ms0)) 1 = None
   \<and> map_option Status (rows (repo (snd (ConnectRouter envSilent 1 ms0))) 1) = Some ''error''"
proof -
  have a: "workerDelay envUp ''10.0.0.1:8728'' = Some 1" by (simp add: envUp_def)
  have b: "workerDelay envSlow ''10.0.0.1:8728'' = Some 25" by (simp add: envUp_def envSlow_def)
  have c: "workerDelay envSilent (Hostname router1 @ '':'' @ itoa (Port router1)) = None"
    by (simp add: envUp_def envSilent_def)
  have c': "workerDelay envSilent ''10.0.0.1:8728'' = None"
    by (simp add: envUp_def envSilent_def)
  have w: "dialWorker envUp ''10.0.0.1:8728'' ''admin'' ''secret'' = Inr 8"
    by (simp add: envUp_def dialWorker_def)
  have m: "connections ms0 1 = None" by (simp add: ms0_def)
  have g: "GetByID (repo ms0) 1 = Inr router1" by (simp add: ms0_def repo0_def GetByID_def)
  have i: "IsActive router1" by (simp add: router1_def)
  have 1: "dialWithTimeout envUp ''10.0.0.1:8728'' ''admin'' ''secret'' 20 = Inr 8"
    using dialWithTimeout_race [of envUp "''10.0.0.1:8728''" "''admin''" "''secret''" 20] a w
    by simp
  have lg: "tcpDial envUp ''10.0.0.1:8728'' = Inr 7" "newClient envUp 7 = Inr 8"
    "login envUp 8 ''admin'' ''wrong'' = Some ''invalid user name or password''"
    by (simp_all add: envUp_def)
  have lf: "dialWithTimeout envUp ''10.0.0.1:8728'' ''admin'' ''wrong'' 20
       = Inl (LoginFailed ''invalid user name or password'')"
  proof -
    have d: "workerDelay envUp ''10.0.0.1:8728'' = Some 1 \<and> (1::nat) < 20" using a by simp
    from dialWithTimeout_race [of envUp "''10.0.0.1:8728''" "''admin''" "''wrong''" 20] d lg
    show ?thesis by blast
  qed
  have a': "workerDelay envRefused ''10.0.0.1:8728'' = Some 1"
    by (simp add: envUp_def envRefused_def)
  have w': "dialWorker envRefused ''10.0.0.1:8728'' ''admin'' ''secret''
              = Inl (TcpDialFailed ''connection refused'')"
    by (simp add: envRefused_def dialWorker_def)
  have r: "dialWithTimeout envRefused ''10.0.0.1:8728'' ''admin'' ''secret'' 20
              = Inl (TcpDialFailed ''connection refused'')"
    using dialWithTimeout_race [of envRefused "''10.0.0.1:8728''" "''admin''" "''secret''" 20] a' w'
    by simp
  have 2: "dialWithTimeout envSlow ''10.0.0.1:8728'' ''admin'' ''secret'' 20 = Inl (ConnectionTimeout 20)"
    using dialWithTimeout_race [of envSlow "''10.0.0.1:8728''" "''admin''" "''secret''" 20] b
    by simp
  have 3: "dialWithTimeout envSilent (Hostname router1 @ '':'' @ itoa (Port router1))
        (Username router1) (Password router1) 20 = Inl (ConnectionTimeout 20)"
    using dialWithTimeout_race [of envSilent "Hostname router1 @ '':'' @ itoa (Port router1)"
        "Username router1" "Password router1" 20] c
    by blast
  have 4: "fst (ConnectRouter envSilent 1 ms0) = Some (ErrFailedToConnect (ConnectionTimeout 20))
   \<and> connections (snd (ConnectRouter envSilent 1 ms0)) 1 = None
   \<and> map_option Status (rows (repo (snd (ConnectRouter envSilent 1 ms0))) 1) = Some ''error''"
  proof -
    have 0: "\<forall>conn. connections ms0 1 = Some conn \<longrightarrow> \<not> IsHealthy conn" using m by simp
    from dialWithTimeout_race [of envSilent "Hostname router1 @ '':'' @ itoa (Port router1)"
        "Username router1" "Password router1" 20 ms0 1] 0 g i 3
    show ?thesis by blast
  qed
  from a a' b c' m g i 1 r 2 3 4 lg lf show ?thesis by (simp del: map_option_eq_Some)
qed

section \<open>The map lock and calls to the device\<close>

lemma address1: "Hostname router1 @ '':'' @ itoa (Port router1) = ''10.0.0.1:8728''"
  by (simp add: router1_def itoa_def showNat.simps digitChar_def)

lemma netWhileLocked_no_lock:
  "\<not> list_ex isLockEvent mid \<Longrightarrow>
     netWhileLocked h (mid @ rest) = ((h \<and> list_ex isNet mid) \<or> netWhileLocked h rest)"
proof (induction mid)
  case Nil
  then show ?case by simp
next
  case (Cons ev mid)
  then show ?case by (cases ev) auto
qed

lemma connectFresh_events:
  "\<exists>evs. trace (snd (connectFresh e routerID ms)) = trace ms @ evs
     \<and> \<not> list_ex isLockEvent evs
     \<and> (\<forall>router. GetByID (repo ms) routerID = Inr router \<and> IsActive router \<longrightarrow>
           NetDial (Hostname router @ '':'' @ itoa (Port router)) \<in> set evs)"
  by (auto simp: connectFresh_def Let_def split: sum.splits)

lemma ConnectRouter_events:
  "\<exists>mid. callEvents ms (snd (ConnectRouter e routerID ms)) = MuLock # mid @ [MuUnlock]
     \<and> \<not> list_ex isLockEvent mid
     \<and> (\<forall>router. (\<forall>conn. connections ms routerID = Some conn \<longrightarrow> \<not> IsHealthy conn)
            \<and> GetByID (repo ms) routerID = Inr router \<and> IsActive router \<longrightarrow>
           NetDial (Hostname router @ '':'' @ itoa (Port router)) \<in> set mid)"
proof (cases "connections ms routerID")
  case None
  obtain evs where evs: "trace (snd (connectFresh e routerID (emit MuLock ms))) = trace (emit MuLock ms) @ evs"
    "\<not> list_ex isLockEvent evs"
    "\<forall>router. GetByID (repo (emit MuLock ms)) routerID = Inr router \<and> IsActive router \<longrightarrow>
           NetDial (Hostname router @ '':'' @ itoa (Port router)) \<in> set evs"
    using connectFresh_events [of e routerID "emit MuLock ms"] by blast
  have "callEvents ms (snd (ConnectRouter e routerID ms)) = MuLock # evs @ [MuUnlock]"
    using None evs(1) by (simp add: ConnectRouter_def Let_def)
  with evs(2) evs(3) show ?thesis by auto
next
  case (Some conn)
  show ?thesis
  proof (cases "IsHealthy conn")
    case True
    have "callEvents ms (snd (ConnectRouter e routerID ms)) = MuLock # [] @ [MuUnlock]"
      using Some True by (simp add: ConnectRouter_def Let_def)
    moreover have "\<not> (\<forall>c. connections ms routerID = Some c \<longrightarrow> \<not> IsHealthy c)"
      using Some True by simp
    ultimately show ?thesis by (intro exI [of _ "[]"]) simp
  next
    case False
    let ?ms2 = "(emit (NetClose (Client conn)) (emit MuLock ms))
                  \<lparr>connections := (connections (emit MuLock ms))(routerID := None)\<rparr>"
    obtain evs where evs: "trace (snd (connectFresh e routerID ?ms2)) = trace ?ms2 @ evs"
      "\<not> list_ex isLockEvent evs"
      "\<forall>router. GetByID (repo ?ms2) routerID = Inr router \<and> IsActive router \<longrightarrow>
           NetDial (Hostname router @ '':'' @ itoa (Port router)) \<in> set evs"
      using connectFresh_events [of e routerID ?ms2] by blast
    have "callEvents ms (snd (ConnectRouter e routerID ms))
            = MuLock # (NetClose (Client conn) # evs) @ [MuUnlock]"
      using Some False evs(1) by (simp add: ConnectRouter_def Let_def)
    with evs(2) evs(3) show ?thesis by (intro exI [of _ "NetClose (Client conn) # evs"]) auto
  qed
qed

text \<open>
  Claim C4, as stated, fails: \<open>ConnectRouter\<close> for router 1, not yet connected, takes the
  map lock, and dials the device and runs the system-info command before it releases it.
\<close>

theorem ConnectRouter_dials_under_lock_counterexample:
  "connections ms0 1 = None
   \<and> callEvents ms0 (snd (ConnectRouter envUp 1 ms0))
       = [MuLock, RepoGetByID 1, NetDial ''10.0.0.1:8728'',
          NetRun 8 [''/system/resource/print''], RepoUpdateStatus 1 ''online'', MuUnlock]
   \<and> netWhileLocked False (callEvents ms0 (snd (ConnectRouter envUp 1 ms0)))"
proof -
  have g: "GetByID (repo (emit MuLock ms0)) 1 = Inr router1"
    by (simp add: ms0_def repo0_def GetByID_def)
  have i: "IsActive router1" by (simp add: router1_def)
  have d: "dialWithTimeout envUp (Hostname router1 @ '':'' @ itoa (Port router1))
        (Username router1) (Password router1) 20 = Inr 8"
    by (simp add: envUp_def dialWithTimeout_def dialWorker_def router1_def)
  have m: "connections ms0 1 = None" by (simp add: ms0_def)
  have "callEvents ms0 (snd (ConnectRouter envUp 1 ms0))
       = [MuLock, RepoGetByID 1, NetDial ''10.0.0.1:8728'',
          NetRun 8 [''/system/resource/print''], RepoUpdateStatus 1 ''online'', MuUnlock]"
    using m connectFresh_dial_ok(4) [OF g i d] address1
    by (simp add: ConnectRouter_def Let_def)
  with m show ?thesis by simp
qed

text \<open>
  Claim C4, amended. The lookup of \<open>GetConnection\<close> holds the map lock (read side) only
  for reading the map: for a present entry its events are taking and releasing the read
  lock, with no call to the device in between. \<open>ConnectRouter\<close> and
  \<open>DisconnectRouter\<close> hold the write lock from their first to their last event:
  \<open>ConnectRouter\<close> holds it across the dial whenever it dials (no healthy entry, the
  descriptor loads and is active), and \<open>DisconnectRouter\<close> across closing the client.
\<close>

theorem map_lock_scope:
  "(\<forall>conn. connections ms routerID = Some conn \<longrightarrow>
       callEvents ms (snd (GetConnection e routerID ms)) = [MuRLock, MuRUnlock]
     \<and> \<not> netWhileLocked False (callEvents ms (snd (GetConnection e routerID ms))))
   \<and> (\<exists>mid. callEvents ms (snd (ConnectRouter e routerID ms)) = MuLock # mid @ [MuUnlock]
          \<and> \<not> list_ex isLockEvent mid
          \<and> (\<forall>router. (\<forall>conn. connections ms routerID = Some conn \<longrightarrow> \<not> IsHealthy conn)
                 \<and> GetByID (repo ms) routerID = Inr router \<and> IsActive router \<longrightarrow>
               NetDial (Hostname router @ '':'' @ itoa (Port router)) \<in> set mid
             \<and> netWhileLocked False (callEvents ms (snd (ConnectRouter e routerID ms)))))
   \<and> (\<forall>conn. connections ms routerID = Some conn \<longrightarrow>
          callEvents ms (snd (DisconnectRouter e routerID ms))
            = [MuLock, NetClose (Client conn), RepoUpdateStatus routerID ''offline'', MuUnlock]
        \<and> netWhileLocked False (callEvents ms (snd (DisconnectRouter e routerID ms))))"
proof -
  have g: "\<forall>conn. connections ms routerID = Some conn \<longrightarrow>
       callEvents ms (snd (GetConnection e routerID ms)) = [MuRLock, MuRUnlock]
     \<and> \<not> netWhileLocked False (callEvents ms (snd (GetConnection e routerID ms)))"
    by (simp add: GetConnection_def Let_def)
  have d: "\<forall>conn. connections ms routerID = Some conn \<longrightarrow>
          callEvents ms (snd (DisconnectRouter e routerID ms))
            = [MuLock, NetClose (Client conn), RepoUpdateStatus routerID ''offline'', MuUnlock]
        \<and> netWhileLocked False (callEvents ms (snd (DisconnectRouter e routerID ms)))"
    by (simp add: DisconnectRouter_def Let_def)
  obtain mid where mid: "callEvents ms (snd (ConnectRouter e routerID ms)) = MuLock # mid @ [MuUnlock]"
    "\<not> list_ex isLockEvent mid"
    "\<forall>router. (\<forall>conn. connections ms routerID = Some conn \<longrightarrow> \<not> IsHealthy conn)
            \<and> GetByID (repo ms) routerID = Inr router \<and> IsActive router \<longrightarrow>
           NetDial (Hostname router @ '':'' @ itoa (Port router)) \<in> set mid"
    using ConnectRouter_events [of ms e routerID] by blast
  have n: "netWhileLocked False (callEvents ms (snd (ConnectRouter e routerID ms)))"
    if "NetDial a \<in> set mid" for a
  proof -
    have "list_ex isNet mid" using that by (auto simp: list_ex_iff intro: bexI [of _ "NetDial a"])
    then show ?thesis using mid(1) mid(2) by (simp add: netWhileLocked_no_lock)
  qed
  have c: "\<exists>mid. callEvents ms (snd (ConnectRouter e routerID ms)) = MuLock # mid @ [MuUnlock]
          \<and> \<not> list_ex isLockEvent mid
          \<and> (\<forall>router. (\<forall>conn. connections ms routerID = Some conn \<longrightarrow> \<not> IsHealthy conn)
                 \<and> GetByID (repo ms) routerID = Inr router \<and> IsActive router \<longrightarrow>
               NetDial (Hostname router @ '':'' @ itoa (Port router)) \<in> set mid
             \<and> netWhileLocked False (callEvents ms (snd (ConnectRouter e routerID ms))))"
    using mid n by (intro exI [of _ mid]) blast
  from g c d show ?thesis by blast
qed


theorem map_lock_scope_witness:
  "connections msHealthy 1 = Some conn1
   \<and> callEvents msHealthy (snd (GetConnection envUp 1 msHealthy)) = [MuRLock, MuRUnlock]
   \<and> callEvents msHealthy (snd (DisconnectRouter envUp 1 msHealthy))
       = [MuLock, NetClose 5, RepoUpdateStatus 1 ''offline'', MuUnlock]
   \<and> connections ms0 1 = None \<and> GetByID (repo ms0) 1 = Inr router1 \<and> IsActive router1
   \<and> netWhileLocked False (callEvents ms0 (snd (ConnectRouter envUp 1 ms0)))"
proof -
  have a: "connections msHealthy 1 = Some conn1" by (simp add: msHealthy_def)
  have b: "Client conn1 = 5" by (simp add: conn1_def)
  have m: "connections ms0 1 = None" by (simp add: ms0_def)
  have m': "\<forall>conn. connections ms0 1 = Some conn \<longrightarrow> \<not> IsHealthy conn" using m by simp
  have g: "GetByID (repo ms0) 1 = Inr router1" by (simp add: ms0_def repo0_def GetByID_def)
  have i: "IsActive router1" by (simp add: router1_def)
  have 1: "callEvents msHealthy (snd (GetConnection envUp 1 msHealthy)) = [MuRLock, MuRUnlock]"
    using map_lock_scope [of msHealthy 1 envUp] a by blast
  have 2: "callEvents msHealthy (snd (DisconnectRouter envUp 1 msHealthy))
       = [MuLock, NetClose (Client conn1), RepoUpdateStatus 1 ''offline'', MuUnlock]"
    using map_lock_scope [of msHealthy 1 envUp] a by blast
  have 3: "netWhileLocked False (callEvents ms0 (snd (ConnectRouter envUp 1 ms0)))"
    using map_lock_scope [of ms0 1 envUp] m' g i by blast
  from a b m g i 1 2 3 show ?thesis by simp
qed

section \<open>Device subscriptions and their consumers\<close>




lemma monitors_foldl_emit [simp]:
  "monitors (foldl (\<lambda>s m. emit (f m) s) ms xs) = monitors ms"
  by (induction xs arbitrary: ms) simp_all



section \<open>The dispatch loop\<close>

text \<open>
  Claim C8, as stated, fails: a sentence with the word \<open>!re\<close> that the loop receives
  when the context is cancelled before the callback is not passed to the callback; the
  goroutine returns instead.
\<close>

theorem cancelled_sample_dropped_counterexample:
  "SWord reSentence = ''!re''
   \<and> received [Recv reSentence 100 True] = [(reSentence, 100)]
   \<and> monitorGoroutine 1 ''ether1'' [Recv reSentence 100 True] = []"
  by (simp add: reSentence_def)

lemma monitorGoroutine_uninterrupted:
  "uninterrupted evs \<Longrightarrow>
     monitorGoroutine routerID interfaceName evs
       = map (sampleOf routerID interfaceName) (filter (\<lambda>p. SWord (fst p) = ''!re'') (received evs))"
  by (induction routerID interfaceName evs rule: monitorGoroutine.induct)
     (simp_all add: sampleOf_def)

lemma monitorGoroutine_append:
  "uninterrupted pre \<Longrightarrow>
     monitorGoroutine routerID interfaceName (pre @ rest)
       = monitorGoroutine routerID interfaceName pre @ monitorGoroutine routerID interfaceName rest"
  by (induction routerID interfaceName pre rule: monitorGoroutine.induct) simp_all

text \<open>
  Claim C8, amended. The callback is only ever called for received sentences whose word is
  \<open>!re\<close>, in the order received: the samples of a run are a prefix of the samples of
  its \<open>!re\<close> sentences. As long as the context is not cancelled and the channel is not
  closed, every \<open>!re\<close> sentence yields its sample and no other sentence does. After
  such a stretch of the run, the next event decides: a \<open>!re\<close> sentence with the context
  found cancelled before the callback ends the loop without a call for it or for
  anything later; a \<open>!re\<close> sentence with the context not cancelled yields its sample and
  the loop goes on; a sentence with any other word (\<open>!trap\<close>, \<open>!done\<close>, or else) yields
  no sample and the loop goes on; the cancellation of the context or the closing of the
  channel ends the loop. The sample carries the router id and interface of the monitor,
  and its byte, packet and bit-rate fields are the values of the sentence's map under the
  corresponding keys, unchanged.
\<close>

theorem monitorGoroutine_samples:
  "prefix (monitorGoroutine routerID interfaceName evs)
      (map (sampleOf routerID interfaceName) (filter (\<lambda>p. SWord (fst p) = ''!re'') (received evs)))
   \<and> (uninterrupted evs \<longrightarrow>
        monitorGoroutine routerID interfaceName evs
          = map (sampleOf routerID interfaceName) (filter (\<lambda>p. SWord (fst p) = ''!re'') (received evs)))
   \<and> (uninterrupted pre \<longrightarrow>
        (SWord sentence = ''!re'' \<longrightarrow>
           monitorGoroutine routerID interfaceName (pre @ Recv sentence t True # rest)
             = monitorGoroutine routerID interfaceName pre
         \<and> monitorGoroutine routerID interfaceName (pre @ Recv sentence t False # rest)
             = monitorGoroutine routerID interfaceName pre
                 @ sampleOf routerID interfaceName (sentence, t)
                 # monitorGoroutine routerID interfaceName rest)
      \<and> (SWord sentence \<noteq> ''!re'' \<longrightarrow>
           monitorGoroutine routerID interfaceName (pre @ Recv sentence t cancelled # rest)
             = monitorGoroutine routerID interfaceName pre
                 @ monitorGoroutine routerID interfaceName rest)
      \<and> monitorGoroutine routerID interfaceName (pre @ CtxDone # rest)
           = monitorGoroutine routerID interfaceName pre
      \<and> monitorGoroutine routerID interfaceName (pre @ ChanClosed # rest)
           = monitorGoroutine routerID interfaceName pre)
   \<and> StatsRouterID (sampleOf routerID interfaceName (sentence, t)) = routerID
   \<and> InterfaceName (sampleOf routerID interfaceName (sentence, t)) = interfaceName
   \<and> RxBytes (sampleOf routerID interfaceName (sentence, t)) = mapGet (SMap sentence) ''rx-bytes''
   \<and> TxBytes (sampleOf routerID interfaceName (sentence, t)) = mapGet (SMap sentence) ''tx-bytes''
   \<and> RxPackets (sampleOf routerID interfaceName (sentence, t)) = mapGet (SMap sentence) ''rx-packets''
   \<and> TxPackets (sampleOf routerID interfaceName (sentence, t)) = mapGet (SMap sentence) ''tx-packets''
   \<and> RxBitsPerSec (sampleOf routerID interfaceName (sentence, t)) = mapGet (SMap sentence) ''rx-bits-per-second''
   \<and> TxBitsPerSec (sampleOf routerID interfaceName (sentence, t)) = mapGet (SMap sentence) ''tx-bits-per-second''"
proof -
  have p: "prefix (monitorGoroutine routerID interfaceName evs)
      (map (sampleOf routerID interfaceName) (filter (\<lambda>p. SWord (fst p) = ''!re'') (received evs)))"
    by (induction routerID interfaceName evs rule: monitorGoroutine.induct)
       (simp_all add: sampleOf_def)
  have u: "uninterrupted evs \<longrightarrow>
        monitorGoroutine routerID interfaceName evs
          = map (sampleOf routerID interfaceName) (filter (\<lambda>p. SWord (fst p) = ''!re'') (received evs))"
    by (simp add: monitorGoroutine_uninterrupted)
  have n: "(SWord sentence = ''!re'' \<longrightarrow>
           monitorGoroutine routerID interfaceName (pre @ Recv sentence t True # rest)
             = monitorGoroutine routerID interfaceName pre
         \<and> monitorGoroutine routerID interfaceName (pre @ Recv sentence t False # rest)
             = monitorGoroutine routerID interfaceName pre
                 @ sampleOf routerID interfaceName (sentence, t)
                 # monitorGoroutine routerID interfaceName rest)
      \<and> (SWord sentence \<noteq> ''!re'' \<longrightarrow>
           monitorGoroutine routerID interfaceName (pre @ Recv sentence t cancelled # rest)
             = monitorGoroutine routerID interfaceName pre
                 @ monitorGoroutine routerID interfaceName rest)
      \<and> monitorGoroutine routerID interfaceName (pre @ CtxDone # rest)
           = monitorGoroutine routerID interfaceName pre
      \<and> monitorGoroutine routerID interfaceName (pre @ ChanClosed # rest)
           = monitorGoroutine routerID interfaceName pre"
    if "uninterrupted pre"
    by (simp add: monitorGoroutine_append [OF that] sampleOf_def)
  from p u n show ?thesis by (simp add: sampleOf_def)
qed

theorem monitorGoroutine_samples_witness:
  "uninterrupted [Recv trapSentence 99 False, Recv reSentence 100 False, Recv doneSentence 101 False]
   \<and> monitorGoroutine 1 ''ether1''
        [Recv trapSentence 99 False, Recv reSentence 100 False, Recv doneSentence 101 False]
       = [sample1]
   \<and> mapGet (SMap reSentence) ''rx-bytes'' = ''1000''
   \<and> RxBytes sample1 = ''1000''
   \<and> SWord reSentence = ''!re''
   \<and> monitorGoroutine 1 ''ether1''
        ([Recv trapSentence 99 False, Recv reSentence 100 False, Recv doneSentence 101 False]
           @ Recv reSentence 102 True # [Recv reSentence 103 False])
       = [sample1]
   \<and> SWord trapSentence = ''!trap''
   \<and> monitorGoroutine 1 ''ether1''
        ([Recv trapSentence 99 False, Recv reSentence 100 False, Recv doneSentence 101 False]
           @ Recv trapSentence 102 True # [])
       = [sample1]"
proof -
  let ?evs = "[Recv trapSentence 99 False, Recv reSentence 100 False, Recv doneSentence 101 False]"
  have u: "uninterrupted ?evs" by simp
  have r: "map (sampleOf 1 ''ether1'') (filter (\<lambda>p. SWord (fst p) = ''!re'') (received ?evs)) = [sample1]"
    by (simp add: trapSentence_def reSentence_def doneSentence_def sampleOf_def sample1_def mapGet_def)
  have w: "SWord reSentence = ''!re''" "SWord trapSentence = ''!trap''" "SWord trapSentence \<noteq> ''!re''"
    by (simp_all add: reSentence_def trapSentence_def)
  have a: "monitorGoroutine 1 ''ether1'' ?evs = [sample1]"
    using monitorGoroutine_samples [of 1 "''ether1''" ?evs] u r by simp
  have b: "monitorGoroutine 1 ''ether1'' (?evs @ Recv reSentence 102 True # [Recv reSentence 103 False])
             = monitorGoroutine 1 ''ether1'' ?evs"
    using monitorGoroutine_samples [where routerID = 1 and interfaceName = "''ether1''"
        and pre = ?evs and sentence = reSentence and t = 102
        and rest = "[Recv reSentence 103 False]"] u w(1)
    by blast
  have c: "monitorGoroutine 1 ''ether1'' (?evs @ Recv trapSentence 102 True # [])
             = monitorGoroutine 1 ''ether1'' ?evs @ monitorGoroutine 1 ''ether1'' []"
    using monitorGoroutine_samples [where routerID = 1 and interfaceName = "''ether1''"
        and pre = ?evs and sentence = trapSentence and t = 102 and cancelled = True
        and rest = "[]"] u w(3)
    by blast
  have d: "mapGet (SMap reSentence) ''rx-bytes'' = ''1000''" "RxBytes sample1 = ''1000''"
    by (simp_all add: reSentence_def mapGet_def sample1_def)
  from u a w d show ?thesis unfolding b c a by simp
qed

section \<open>The status message of the streaming handler\<close>
























section \<open>Operations under the command lock\<close>

lemma filter_length_update:
  "i < length xs \<Longrightarrow>
     length (filter P (xs[i := y])) + (if P (xs ! i) then 1 else 0)
       = length (filter P xs) + (if P y then 1 else 0)"
proof (induction xs arbitrary: i)
  case Nil
  then show ?case by simp
next
  case (Cons x xs)
  show ?case
  proof (cases i)
    case 0
    then show ?thesis by simp
  next
    case (Suc k)
    with Cons.prems have "k < length xs" by simp
    from Cons.IH [OF this] Suc show ?thesis by simp
  qed
qed

lemma executingExclusive_le: "executingExclusive ops \<le> executing ops"
proof -
  have "length (filter isExecutingExclusive ops) \<le> length (filter isExecuting ops)"
    by (induction ops) (auto simp: isExecuting_def isExecutingExclusive_def)
  then show ?thesis by (simp add: executing_def executingExclusive_def)
qed

lemma stepOp_length [simp]: "length (stepOp ops i) = length ops"
  by (simp add: stepOp_def split: phase.splits)

lemma stepOp_requests [simp]: "map fst (stepOp ops i) = map fst ops"
  by (auto simp: stepOp_def map_update list_update_same_conv split: phase.splits)

lemma stepOp_exclusive_alone:
  assumes "executingExclusive ops = 0 \<or> executing ops = 1"
  shows "executingExclusive (stepOp ops i) = 0 \<or> executing (stepOp ops i) = 1"
proof (cases "i < length ops")
  case False
  then show ?thesis using assms by (simp add: stepOp_def)
next
  case True
  obtain r p where rp: "ops ! i = (r, p)" by (cases "ops ! i")
  have le: "executingExclusive ops \<le> executing ops" by (rule executingExclusive_le)
  show ?thesis
  proof (cases p)
    case Waiting
    show ?thesis
    proof (cases "canAcquire (lockMode r) ops")
      case False
      then show ?thesis using assms True rp Waiting by (simp add: stepOp_def)
    next
      case acq: True
      have s: "stepOp ops i = ops[i := (r, Executing)]"
        using True rp Waiting acq by (simp add: stepOp_def)
      have e: "executing (ops[i := (r, Executing)]) = executing ops + 1"
        using filter_length_update [OF True, of isExecuting "(r, Executing)"] rp Waiting
        by (simp add: executing_def isExecuting_def)
      show ?thesis
      proof (cases "lockMode r")
        case Shared
        have "executingExclusive (ops[i := (r, Executing)]) = executingExclusive ops"
          using filter_length_update [OF True, of isExecutingExclusive "(r, Executing)"] rp Waiting Shared
          by (simp add: executingExclusive_def isExecutingExclusive_def)
        moreover have "executingExclusive ops = 0" using acq Shared by (simp add: canAcquire_def)
        ultimately show ?thesis by (simp add: s)
      next
        case Exclusive
        have "executing ops = 0" using acq Exclusive by (simp add: canAcquire_def)
        then show ?thesis using e by (simp add: s)
      qed
    qed
  next
    case Executing
    have s: "stepOp ops i = ops[i := (r, Returned)]"
      using True rp Executing by (simp add: stepOp_def)
    have e: "executing (ops[i := (r, Returned)]) + 1 = executing ops"
      using filter_length_update [OF True, of isExecuting "(r, Returned)"] rp Executing
      by (simp add: executing_def isExecuting_def)
    have x: "executingExclusive (ops[i := (r, Returned)]) \<le> executingExclusive ops"
      using filter_length_update [OF True, of isExecutingExclusive "(r, Returned)"] rp Executing
      by (simp add: executingExclusive_def isExecutingExclusive_def split: if_splits)
    have le': "executingExclusive (ops[i := (r, Returned)]) \<le> executing (ops[i := (r, Returned)])"
      by (rule executingExclusive_le)
    from assms show ?thesis
    proof
      assume "executingExclusive ops = 0"
      with x show ?thesis by (simp add: s)
    next
      assume "executing ops = 1"
      with e have "executing (ops[i := (r, Returned)]) = 0" by simp
      with le' show ?thesis by (simp add: s)
    qed
  next
    case Returned
    then show ?thesis using assms True rp by (simp add: stepOp_def)
  qed
qed

lemma foldl_stepOp_exclusive_alone:
  "executingExclusive ops = 0 \<or> executing ops = 1 \<Longrightarrow>
     executingExclusive (foldl stepOp ops schedule) = 0 \<or> executing (foldl stepOp ops schedule) = 1"
proof (induction schedule arbitrary: ops)
  case Nil
  then show ?case by simp
next
  case (Cons i schedule)
  from Cons.IH [OF stepOp_exclusive_alone [OF Cons.prems]] show ?case by simp
qed

lemma foldl_stepOp_requests: "map fst (foldl stepOp ops schedule) = map fst ops"
  by (induction schedule arbitrary: ops) simp_all

lemma waiting_none_executing: "executingExclusive (map (\<lambda>r. (r, Waiting)) requests) = 0"
  by (induction requests) (simp_all add: executingExclusive_def isExecutingExclusive_def)

lemma filter_nonempty_nth: "i < length xs \<Longrightarrow> P (xs ! i) \<Longrightarrow> 1 \<le> length (filter P xs)"
proof -
  assume "i < length xs" "P (xs ! i)"
  then have "filter P xs \<noteq> []" by (metis filter_empty_conv nth_mem)
  then obtain y ys where "filter P xs = y # ys" by (cases "filter P xs") auto
  then show ?thesis by simp
qed

lemma filter_two_nth:
  assumes "i < j" and "j < length xs" and "P (xs ! i)" and "P (xs ! j)"
  shows "2 \<le> length (filter P xs)"
proof -
  have xs: "xs = take j xs @ drop j xs" by simp
  have a: "1 \<le> length (filter P (take j xs))"
    using assms by (intro filter_nonempty_nth [of i]) simp_all
  have b: "1 \<le> length (filter P (drop j xs))"
    using assms by (intro filter_nonempty_nth [of 0]) simp_all
  have "length (filter P xs) = length (filter P (take j xs)) + length (filter P (drop j xs))"
    by (subst xs) (simp only: filter_append length_append)
  with a b show ?thesis by simp
qed

text \<open>
  Claim C3, as stated, fails: two \<open>GetInterfaces\<close> calls on one connection both take the
  read side of the connection's lock, so after each has taken it both are executing their
  command on the same client at the same time.
\<close>

theorem two_listings_overlap_counterexample:
  "lockMode OpGetInterfaces = Shared
   \<and> runSchedule [OpGetInterfaces, OpGetInterfaces] [0, 1]
       = [(OpGetInterfaces, Executing), (OpGetInterfaces, Executing)]
   \<and> executing (runSchedule [OpGetInterfaces, OpGetInterfaces] [0, 1]) = 2"
  by (simp add: runSchedule_def stepOp_def canAcquire_def executing_def executingExclusive_def
      isExecuting_def isExecutingExclusive_def)

lemma shared_is_listing:
  "lockMode r = Shared \<Longrightarrow> r \<in> {OpGetInterfaces, OpGetAddresses, OpGetQueues}"
  by (cases r) simp_all

lemma exclusive_is_mutation:
  "r \<in> {OpEnableInterface, OpDisableInterface, OpAddAddress, OpRemoveAddress, OpAddQueue,
          OpRemoveQueue, OpGetInterfaceTrafficOnce} \<Longrightarrow> lockMode r = Exclusive"
  by auto

text \<open>
  Claim C3, amended. Under every schedule of the one-shot operations on one connection:
  while \<open>EnableInterface\<close>, \<open>DisableInterface\<close>, \<open>AddAddress\<close>, \<open>RemoveAddress\<close>,
  \<open>AddQueue\<close>, \<open>RemoveQueue\<close> or \<open>GetInterfaceTrafficOnce\<close> executes its commands, no
  other one-shot operation on that connection executes; so two operations that execute at
  the same time are both listings (\<open>GetInterfaces\<close>, \<open>GetAddresses\<close>,
  \<open>GetQueues\<close>). Any two listings do execute at the same time once each has taken the
  lock, which neither has to wait for.
\<close>

theorem exclusive_operations_serialize:
  "map fst (runSchedule requests schedule) = requests
   \<and> (executingExclusive (runSchedule requests schedule) = 0
        \<or> executing (runSchedule requests schedule) = 1)
   \<and> (\<forall>i j. i < j \<and> j < length requests
          \<and> snd (runSchedule requests schedule ! i) = Executing
          \<and> snd (runSchedule requests schedule ! j) = Executing
        \<longrightarrow> lockMode (requests ! i) = Shared \<and> lockMode (requests ! j) = Shared
          \<and> requests ! i \<in> {OpGetInterfaces, OpGetAddresses, OpGetQueues}
          \<and> requests ! j \<in> {OpGetInterfaces, OpGetAddresses, OpGetQueues})
   \<and> (\<forall>i j. i < length requests \<and> j < length requests \<and> i \<noteq> j
          \<and> requests ! i \<in> {OpEnableInterface, OpDisableInterface, OpAddAddress,
                               OpRemoveAddress, OpAddQueue, OpRemoveQueue,
                               OpGetInterfaceTrafficOnce}
          \<and> snd (runSchedule requests schedule ! i) = Executing
        \<longrightarrow> snd (runSchedule requests schedule ! j) \<noteq> Executing)
   \<and> (\<forall>a b. a \<in> {OpGetInterfaces, OpGetAddresses, OpGetQueues}
          \<and> b \<in> {OpGetInterfaces, OpGetAddresses, OpGetQueues}
        \<longrightarrow> runSchedule [a, b] [0, 1] = [(a, Executing), (b, Executing)])"
proof -
  let ?ops = "runSchedule requests schedule"
  have r: "map fst ?ops = requests"
    by (simp add: runSchedule_def foldl_stepOp_requests comp_def)
  have len: "length ?ops = length requests" using r by (metis length_map)
  have inv: "executingExclusive ?ops = 0 \<or> executing ?ops = 1"
    unfolding runSchedule_def
    by (rule foldl_stepOp_exclusive_alone) (simp add: waiting_none_executing)
  have fi: "fst (?ops ! k) = requests ! k" if "k < length requests" for k
    using that r len by (metis nth_map)
  have idx: "lockMode (requests ! i) = Shared \<and> lockMode (requests ! j) = Shared"
    if h: "i < j" "j < length requests" "snd (?ops ! i) = Executing" "snd (?ops ! j) = Executing"
    for i j
  proof -
    have "2 \<le> length (filter isExecuting ?ops)"
      using h len by (intro filter_two_nth [of i j]) (simp_all add: isExecuting_def)
    then have "executing ?ops \<noteq> 1" by (simp add: executing_def)
    with inv have z: "executingExclusive ?ops = 0" by simp
    have ni: "\<not> isExecutingExclusive (?ops ! k)" if "k < length ?ops" for k
    proof
      assume "isExecutingExclusive (?ops ! k)"
      with that have "1 \<le> length (filter isExecutingExclusive ?ops)"
        by (rule filter_nonempty_nth [of k ?ops isExecutingExclusive])
      with z show False by (simp add: executingExclusive_def)
    qed
    have "lockMode (requests ! i) \<noteq> Exclusive"
      using ni [of i] h len fi [of i] by (simp add: isExecutingExclusive_def)
    moreover have "lockMode (requests ! j) \<noteq> Exclusive"
      using ni [of j] h len fi [of j] by (simp add: isExecutingExclusive_def)
    ultimately show ?thesis by (metis lock_mode.exhaust)
  qed
  have idx': "lockMode (requests ! i) = Shared \<and> lockMode (requests ! j) = Shared
          \<and> requests ! i \<in> {OpGetInterfaces, OpGetAddresses, OpGetQueues}
          \<and> requests ! j \<in> {OpGetInterfaces, OpGetAddresses, OpGetQueues}"
    if h: "i < j" "j < length requests" "snd (?ops ! i) = Executing" "snd (?ops ! j) = Executing"
    for i j
    using idx [OF h] shared_is_listing [of "requests ! i"] shared_is_listing [of "requests ! j"]
    by blast
  have alone: "snd (?ops ! j) \<noteq> Executing"
    if h: "i < length requests" "j < length requests" "i \<noteq> j"
      "requests ! i \<in> {OpEnableInterface, OpDisableInterface, OpAddAddress,
                               OpRemoveAddress, OpAddQueue, OpRemoveQueue,
                               OpGetInterfaceTrafficOnce}"
      "snd (?ops ! i) = Executing"
    for i j
  proof
    assume e: "snd (?ops ! j) = Executing"
    have x: "lockMode (requests ! i) = Exclusive" using h(4) by (rule exclusive_is_mutation)
    show False
    proof (cases "i < j")
      case True
      from idx [OF True h(2) h(5) e] x show False by simp
    next
      case False
      with h(3) have "j < i" by simp
      from idx [OF this h(1) e h(5)] x show False by simp
    qed
  qed
  have both: "runSchedule [a, b] [0, 1] = [(a, Executing), (b, Executing)]"
    if "a \<in> {OpGetInterfaces, OpGetAddresses, OpGetQueues}"
      "b \<in> {OpGetInterfaces, OpGetAddresses, OpGetQueues}" for a b
    using that
    by (auto simp: runSchedule_def stepOp_def canAcquire_def executing_def executingExclusive_def
        isExecuting_def isExecutingExclusive_def)
  from r inv idx' alone both show ?thesis by blast
qed

theorem exclusive_operations_serialize_witness:
  "snd (runSchedule [OpGetInterfaces, OpGetAddresses, OpEnableInterface] [0, 1, 2] ! 0) = Executing
   \<and> snd (runSchedule [OpGetInterfaces, OpGetAddresses, OpEnableInterface] [0, 1, 2] ! 1) = Executing
   \<and> snd (runSchedule [OpGetInterfaces, OpGetAddresses, OpEnableInterface] [0, 1, 2] ! 2) = Waiting
   \<and> lockMode ([OpGetInterfaces, OpGetAddresses, OpEnableInterface] ! 0) = Shared
   \<and> lockMode ([OpGetInterfaces, OpGetAddresses, OpEnableInterface] ! 1) = Shared
   \<and> snd (runSchedule [OpAddQueue, OpGetQueues] [0, 1] ! 0) = Executing
   \<and> snd (runSchedule [OpAddQueue, OpGetQueues] [0, 1] ! 1) \<noteq> Executing
   \<and> runSchedule [OpGetQueues, OpGetAddresses] [0, 1]
       = [(OpGetQueues, Executing), (OpGetAddresses, Executing)]"
proof -
  let ?rs = "[OpGetInterfaces, OpGetAddresses, OpEnableInterface]"
  have v: "runSchedule ?rs [0, 1, 2]
     = [(OpGetInterfaces, Executing), (OpGetAddresses, Executing), (OpEnableInterface, Waiting)]"
    by (simp add: runSchedule_def stepOp_def canAcquire_def executing_def executingExclusive_def
      isExecuting_def isExecutingExclusive_def)
  have a: "snd (runSchedule ?rs [0, 1, 2] ! 0) = Executing"
    and b: "snd (runSchedule ?rs [0, 1, 2] ! 1) = Executing"
    and c: "snd (runSchedule ?rs [0, 1, 2] ! 2) = Waiting"
    unfolding v by simp_all
  have t: "\<forall>i j. i < j \<and> j < length ?rs
          \<and> snd (runSchedule ?rs [0, 1, 2] ! i) = Executing
          \<and> snd (runSchedule ?rs [0, 1, 2] ! j) = Executing
        \<longrightarrow> lockMode (?rs ! i) = Shared \<and> lockMode (?rs ! j) = Shared"
    using exclusive_operations_serialize [of ?rs "[0, 1, 2]"] by blast
  have "lockMode (?rs ! 0) = Shared \<and> lockMode (?rs ! 1) = Shared"
    using t [rule_format, of 0 1] a b by simp
  moreover have q: "snd (runSchedule [OpAddQueue, OpGetQueues] [0, 1] ! 0) = Executing"
    by (simp add: runSchedule_def stepOp_def canAcquire_def executing_def executingExclusive_def
      isExecuting_def isExecutingExclusive_def)
  moreover have "snd (runSchedule [OpAddQueue, OpGetQueues] [0, 1] ! 1) \<noteq> Executing"
  proof -
    have s: "\<forall>i j. i < length [OpAddQueue, OpGetQueues] \<and> j < length [OpAddQueue, OpGetQueues]
          \<and> i \<noteq> j
          \<and> [OpAddQueue, OpGetQueues] ! i \<in> {OpEnableInterface, OpDisableInterface, OpAddAddress,
                               OpRemoveAddress, OpAddQueue, OpRemoveQueue,
                               OpGetInterfaceTrafficOnce}
          \<and> snd (runSchedule [OpAddQueue, OpGetQueues] [0, 1] ! i) = Executing
        \<longrightarrow> snd (runSchedule [OpAddQueue, OpGetQueues] [0, 1] ! j) \<noteq> Executing"
      using exclusive_operations_serialize [of "[OpAddQueue, OpGetQueues]" "[0, 1]"] by blast
    show ?thesis using s [rule_format, of 0 1] q by simp
  qed
  moreover have "runSchedule [OpGetQueues, OpGetAddresses] [0, 1]
       = [(OpGetQueues, Executing), (OpGetAddresses, Executing)]"
    using exclusive_operations_serialize [of "[]" "[]"] by blast
  ultimately show ?thesis using a b c by blast
qed

end
